theory Spec2Isabelle
  imports Complex_Main "HOL-Library.Multiset"
begin

section \<open>Round coordination and progress reconciliation of the validator\<close>

text \<open>
  A shallow embedding of the validator's round logic: the loading guard and the
  recovery loader of \<^verbatim>\<open>distributed_training/utils/state_loader.py\<close>, the two
  \<^verbatim>\<open>forward\<close> functions (\<^verbatim>\<open>distributed_training/validator/forward.py\<close> and
  \<^verbatim>\<open>template/validator/forward.py\<close>), the scoring of
  \<^verbatim>\<open>template/validator/reward.py\<close> and the peer ordering of
  \<^verbatim>\<open>scripts/grad_averager_test.py\<close>.

  Python integers are \<open>int\<close>, \<^verbatim>\<open>None\<close>-able values are \<open>option\<close>, exceptions are
  values of a sum type, and every call to a collaborator outside the sources (the hub,
  the DHT) takes its outcome from an explicit environment argument.
\<close>

subsection \<open>ModelLoadingManager\<close>

text \<open>
  \<^verbatim>\<open>
  class ModelLoadingManager:
      def __init__(self):
          self.loading_lock = threading.Lock()
          self._is_loading = False
          self._last_loaded_epoch = None

      def set_loading_state(self, is_loading, epoch=None):
          with self.loading_lock:
              self._is_loading = is_loading
              if not is_loading and epoch is not None:
                  self._last_loaded_epoch = epoch
  \<close>
  The lock only serialises the body; one call is one atomic state change.
\<close>

record model_loading_manager =
  is_loading :: bool
  last_loaded_epoch :: "int option"

definition init_manager :: model_loading_manager where
  "init_manager = \<lparr>is_loading = False, last_loaded_epoch = None\<rparr>"

definition set_loading_state ::
  "model_loading_manager \<Rightarrow> bool \<Rightarrow> int option \<Rightarrow> model_loading_manager" where
  "set_loading_state m loading epoch =
     (let m1 = m\<lparr>is_loading := loading\<rparr>
      in if \<not> loading \<and> epoch \<noteq> None then m1\<lparr>last_loaded_epoch := epoch\<rparr> else m1)"

subsection \<open>Progress and the recovery loader\<close>

text \<open>
  The fields of the validator object that the claims read. \<^verbatim>\<open>global_progress.epoch\<close>
  is \<^verbatim>\<open>None\<close> while nothing has been published. \<open>model\<close> records which revision
  of the hub repository \<^verbatim>\<open>self.model\<close> was loaded from; \<open>None\<close> stands for a
  validator object without the attribute (after \<^verbatim>\<open>del self.model\<close>).
\<close>

datatype py_error = IndexError | AttributeError | HubError | RpcError | TypeError

datatype revision = Default_branch | Tag int

record neuron =
  local_epoch :: int
  local_samples_accumulated :: int
  global_epoch :: "int option"
  model :: "revision option"

text \<open>
  \<^verbatim>\<open>
  self.model = (
      AutoModelForCausalLM.from_pretrained(model_name, revision=str(epoch), trust_remote_code=True)
      if epoch
      else AutoModelForCausalLM.from_pretrained(model_name, trust_remote_code=True)
  )
  \<close>
  The conditional tests the truth value of the integer: epoch 0 selects the second branch,
  which names no revision.
\<close>

definition revision_of_epoch :: "int \<Rightarrow> revision" where
  "revision_of_epoch epoch = (if epoch \<noteq> 0 then Tag epoch else Default_branch)"

text \<open>
  \<^verbatim>\<open>load_model_optimizer_gradient_averager\<close> deletes the present model and
  downloads the requested revision. The download is the collaborator: \<open>fetch r\<close> says
  whether the hub serves revision \<open>r\<close> at this call. A failing call is placed at the
  download, after the deletion. The optimizer download that follows is wrapped in its own
  \<^verbatim>\<open>try\<close> and falls back to a fresh optimizer, so it does not fail the call.
\<close>

definition load_model_optimizer_gradient_averager ::
  "(revision \<Rightarrow> bool) \<Rightarrow> int \<Rightarrow> neuron \<Rightarrow> py_error option \<times> neuron" where
  "load_model_optimizer_gradient_averager fetch epoch s =
     (let s1 = s\<lparr>model := None\<rparr>;
          r = revision_of_epoch epoch
      in if fetch r then (None, s1\<lparr>model := Some r\<rparr>) else (Some HubError, s1))"

definition MAX_ATTEMPTS :: nat where
  "MAX_ATTEMPTS = 3"

text \<open>
  \<^verbatim>\<open>
  attempt = 0
  while attempt < MAX_ATTEMPTS:
      try:
          load_model_optimizer_gradient_averager(self, self.config.neuron.model_name, epoch)
          break
      except Exception as e:
          attempt += 1
          if attempt == MAX_ATTEMPTS:
              raise Exception(...)
  \<close>
  \<open>hub attempt\<close> is the hub as the attempt numbered \<open>attempt\<close> finds it.
\<close>

function load_loop ::
  "(nat \<Rightarrow> revision \<Rightarrow> bool) \<Rightarrow> int \<Rightarrow> nat \<Rightarrow> neuron \<Rightarrow> py_error option \<times> neuron" where
  "load_loop hub epoch attempt s =
     (if attempt < MAX_ATTEMPTS then
        (case load_model_optimizer_gradient_averager (hub attempt) epoch s of
           (None, s1) \<Rightarrow> (None, s1)
         | (Some e, s1) \<Rightarrow>
             (let attempt1 = attempt + 1
              in if attempt1 = MAX_ATTEMPTS then (Some e, s1)
                 else load_loop hub epoch attempt1 s1))
      else (None, s))"
  by pat_completeness auto
termination
  by (relation "measure (\<lambda>(hub, epoch, attempt, s). MAX_ATTEMPTS - attempt)") auto

declare load_loop.simps [simp del]

text \<open>
  \<^verbatim>\<open>
  def load_state_from_peer(self, epoch=None):
      try:
          state_loaded = False
          if epoch is None:
              self.global_progress.epoch = get_global_epoch(self)
              epoch = self.global_progress.epoch
          ... [layer for layer in self.model.parameters()] ...
          if self.global_progress.epoch is not None:
              <the retry loop above, on epoch>
              state_loaded = True
              self.local_progress.epoch = self.global_progress.epoch
              self.local_progress.samples_accumulated = 0
              <cleanup_old_cache, its exceptions caught>
          return state_loaded
      except Exception as e:
          return False
  \<close>
  \<open>queried\<close> is what \<^verbatim>\<open>get_global_epoch\<close> answers. Reading
  \<^verbatim>\<open>self.model\<close> on an object without the attribute raises, which the outer handler
  turns into \<^verbatim>\<open>False\<close>. When the epoch in use is \<^verbatim>\<open>None\<close> the global epoch is
  \<^verbatim>\<open>None\<close> too, so that case returns \<^verbatim>\<open>False\<close> like the one below it.
\<close>

definition load_state_from_peer ::
  "int option \<Rightarrow> (nat \<Rightarrow> revision \<Rightarrow> bool) \<Rightarrow> int option \<Rightarrow> neuron \<Rightarrow> bool \<times> neuron" where
  "load_state_from_peer queried hub epoch s =
     (let s1 = (if epoch = None then s\<lparr>global_epoch := queried\<rparr> else s);
          epoch1 = (if epoch = None then global_epoch s1 else epoch)
      in if model s1 = None then (False, s1)
         else (case global_epoch s1 of
                 None \<Rightarrow> (False, s1)
               | Some g \<Rightarrow>
                   (case epoch1 of
                      None \<Rightarrow> (False, s1)
                    | Some e \<Rightarrow>
                        (case load_loop hub e 0 s1 of
                           (Some err, s2) \<Rightarrow> (False, s2)
                         | (None, s2) \<Rightarrow>
                             (True, s2\<lparr>local_epoch := g, local_samples_accumulated := 0\<rparr>)))))"

text \<open>A hub that serves every revision at every attempt, and three validator states.\<close>

definition hub_up :: "nat \<Rightarrow> revision \<Rightarrow> bool" where
  "hub_up n r = True"

definition behind_neuron :: neuron where
  "behind_neuron =
     \<lparr>local_epoch = 3, local_samples_accumulated = 7, global_epoch = Some 5,
      model = Some (Tag 3)\<rparr>"

definition early_neuron :: neuron where
  "early_neuron =
     \<lparr>local_epoch = 1, local_samples_accumulated = 12, global_epoch = Some 0,
      model = Some Default_branch\<rparr>"

definition ahead_neuron :: neuron where
  "ahead_neuron =
     \<lparr>local_epoch = 6, local_samples_accumulated = 0, global_epoch = Some 5,
      model = Some (Tag 5)\<rparr>"

subsection \<open>The routine progress check and the round-due decision\<close>

text \<open>
  \<^verbatim>\<open>distributed_training/validator/forward.py\<close>, after
  \<^verbatim>\<open>update_global_tracker_state(self)\<close>:
  \<^verbatim>\<open>
  if self.local_progress.epoch != self.global_progress.epoch:
      bt.logging.info(f"Local Epoch ... Behind Global Epoch .... Loading Latest Model State.")
      load_state_from_peer(self, epoch=self.global_progress.epoch)
  \<close>
  The result is the call made to the loader, by its \<^verbatim>\<open>epoch\<close> argument, or
  \<open>None\<close> when the loader is not called.
\<close>

definition forward_dt_progress_check :: "neuron \<Rightarrow> int option option" where
  "forward_dt_progress_check s =
     (if Some (local_epoch s) \<noteq> global_epoch s then Some (global_epoch s) else None)"

text \<open>
  \<^verbatim>\<open>template/validator/forward.py\<close>:
  \<^verbatim>\<open>
  if self.global_progress.epoch is not None:
      if self.local_progress.epoch < self.global_progress.epoch:
          load_state_from_peer(self)
  \<close>
\<close>

definition forward_template_progress_check :: "neuron \<Rightarrow> int option option" where
  "forward_template_progress_check s =
     (case global_epoch s of
        None \<Rightarrow> None
      | Some g \<Rightarrow> if local_epoch s < g then Some None else None)"

text \<open>
  \<^verbatim>\<open>distributed_training/validator/forward.py\<close>:
  \<^verbatim>\<open>
  blocks_since_allreduce = self.block - self.last_allreduce_block
  should_allreduce = blocks_since_allreduce >= self.config.neuron.blocks_per_allreduce
  should_allreduce = True
  \<close>
\<close>

definition forward_dt_should_allreduce :: "int \<Rightarrow> int \<Rightarrow> int \<Rightarrow> bool" where
  "forward_dt_should_allreduce block last_allreduce_block blocks_per_allreduce =
     (let blocks_since_allreduce = block - last_allreduce_block;
          should_allreduce = (blocks_since_allreduce \<ge> blocks_per_allreduce);
          should_allreduce = True
      in should_allreduce)"

text \<open>
  \<^verbatim>\<open>template/validator/forward.py\<close>:
  \<^verbatim>\<open>if self.local_progress.samples_accumulated>=25:\<close> selects the all-reduce branch.
\<close>

definition forward_template_all_reduce :: "neuron \<Rightarrow> bool" where
  "forward_template_all_reduce s = (local_samples_accumulated s \<ge> 25)"

subsection \<open>Finding enough miners\<close>

text \<open>
  \<^verbatim>\<open>distributed_training/validator/forward.py\<close>, inside the \<^verbatim>\<open>try\<close> of the
  master validator, with \<^verbatim>\<open>self.miner_uids = []\<close> before it:
  \<^verbatim>\<open>
  while len(self.miner_uids) < (self.config.neuron.min_group_size - 1):
      self.miner_uids = await get_random_uids(self, dendrite=self.dendrite, k=sample_size, ...)
  \<close>
  \<open>polls k\<close> is what the call numbered \<open>k\<close> of \<^verbatim>\<open>get_random_uids\<close> answers,
  \<open>None\<close> when it raises (the exception leaves the loop for the handler of the
  \<^verbatim>\<open>try\<close>). The loop has no counter, so the function is partial: the value
  \<open>None\<close> of \<open>get_active_miners\<close> is a loop that never ends.
\<close>

partial_function (option) get_active_miners ::
  "(nat \<Rightarrow> int list option) \<Rightarrow> int \<Rightarrow> nat \<Rightarrow> int list \<Rightarrow> (py_error + int list) option" where
  "get_active_miners polls min_group_size k miner_uids =
     (if int (length miner_uids) < min_group_size - 1 then
        (case polls k of
           None \<Rightarrow> Some (Inl RpcError)
         | Some uids \<Rightarrow> get_active_miners polls min_group_size (Suc k) uids)
      else Some (Inr miner_uids))"

declare get_active_miners.simps [code]

text \<open>A pool that always answers two miners, and one that answers four from the third call on.\<close>

definition small_pool :: "nat \<Rightarrow> int list option" where
  "small_pool k = Some [1, 2]"

definition growing_pool :: "nat \<Rightarrow> int list option" where
  "growing_pool k = (if k < 2 then Some [1, 2] else Some [1, 2, 3, 4])"

subsection \<open>Uploading the new state\<close>

text \<open>
  \<^verbatim>\<open>
  def save_and_upload_state(self, epoch, results):
      ...
      attempt = 0
      while attempt < self.model_upload_retry_limit:
          try:
              with tempfile.TemporaryDirectory() as tmp_folder:
                  self.model.save_pretrained(tmp_folder)
                  torch.save(optimizer_state, os.path.join(tmp_folder, "optimizer.pt"))
                  upload_folder(folder_path=tmp_folder, ...)
                  create_tag(self.config.neuron.model_name, repo_type="model", tag=str(epoch), ...)
                  return True
          except Exception as e:
              attempt += 1
              if attempt < self.model_upload_retry_limit:
                  time.sleep(self.model_upload_retry_delay)
              else:
                  raise
      return False
  \<close>
  The environment says, for the attempt numbered \<open>k\<close>, which call of the body raises, if
  any. The result carries the calls made on the collaborators, in order.
\<close>

datatype attempt_outcome = Raises_in_save | Raises_in_upload | Raises_in_create_tag | Completes

datatype hub_call = Save_state | Upload_folder | Create_tag | Sleep

datatype upload_result = Returned bool | Raised attempt_outcome

fun calls_of :: "attempt_outcome \<Rightarrow> hub_call list" where
  "calls_of Raises_in_save = [Save_state]"
| "calls_of Raises_in_upload = [Save_state, Upload_folder]"
| "calls_of Raises_in_create_tag = [Save_state, Upload_folder, Create_tag]"
| "calls_of Completes = [Save_state, Upload_folder, Create_tag]"

function upload_loop ::
  "(nat \<Rightarrow> attempt_outcome) \<Rightarrow> int \<Rightarrow> nat \<Rightarrow> hub_call list \<Rightarrow> upload_result \<times> hub_call list" where
  "upload_loop env retry_limit attempt calls =
     (if int attempt < retry_limit then
        (let calls1 = calls @ calls_of (env attempt)
         in if env attempt = Completes then (Returned True, calls1)
            else (let attempt1 = attempt + 1
                  in if int attempt1 < retry_limit
                     then upload_loop env retry_limit attempt1 (calls1 @ [Sleep])
                     else (Raised (env attempt), calls1)))
      else (Returned False, calls))"
  by pat_completeness auto
termination
  by (relation "measure (\<lambda>(env, retry_limit, attempt, calls). nat (retry_limit - int attempt))") auto

declare upload_loop.simps [simp del]

definition save_and_upload_state ::
  "(nat \<Rightarrow> attempt_outcome) \<Rightarrow> int \<Rightarrow> upload_result \<times> hub_call list" where
  "save_and_upload_state env retry_limit = upload_loop env retry_limit 0 []"

text \<open>
  The calls of the attempts \<open>a, \<dots>, n - 1\<close>, each followed by the sleep before the next
  attempt.
\<close>

definition attempts_trace :: "(nat \<Rightarrow> attempt_outcome) \<Rightarrow> nat \<Rightarrow> nat \<Rightarrow> hub_call list" where
  "attempts_trace env a n = concat (map (\<lambda>j. calls_of (env j) @ [Sleep]) [a..<n])"

text \<open>
  A hub whose first attempt fails at the tag and whose second fails at the upload, and a
  hub where every tag creation fails.
\<close>

definition flaky_hub :: "nat \<Rightarrow> attempt_outcome" where
  "flaky_hub k = (if k = 0 then Raises_in_create_tag else if k = 1 then Raises_in_upload else Completes)"

definition down_hub :: "nat \<Rightarrow> attempt_outcome" where
  "down_hub k = Raises_in_create_tag"

subsection \<open>The publisher and the tags of the hub\<close>





subsection \<open>Peer ids, and their order in the test script\<close>

text \<open>
  A peer id is a number. \<^verbatim>\<open>scripts/grad_averager_test.py\<close> builds its group from the
  peers it lists:
  \<^verbatim>\<open>
  ordered_peer_ids = [dht.peer_id]
  remote_peer = loop.run_until_complete(_p2p.list_peers())
  remote_peer = [peer.peer_id for peer in remote_peer]
  ordered_peer_ids += remote_peer
  ordered_peer_ids.sort(key=lambda peer: peer.xor_id)
  custom_group = GroupInfo(group_id, tuple(ordered_peer_ids), gathered=None)
  \<close>
  \<^verbatim>\<open>list.sort\<close> is stable, as \<open>sort_key\<close> is. \<open>xor_id\<close> is the attribute of the
  peer id class, a number fixed by the peer id alone.
\<close>

type_synonym peer_id = nat

definition script_ordered_peer_ids :: "(peer_id \<Rightarrow> nat) \<Rightarrow> peer_id \<Rightarrow> peer_id list \<Rightarrow> peer_id list" where
  "script_ordered_peer_ids xor_id self_peer remote_peer = sort_key xor_id ([self_peer] @ remote_peer)"

subsection \<open>Scoring the miners\<close>

text \<open>
  What \<^verbatim>\<open>template/validator/reward.py\<close> reads of a miner's response: the status code
  of the call, the reported loss (\<open>None\<close> for the empty list a response starts with) and
  the gradient sum the miner reports. Scores are floats; they are modelled as reals, and
  every value in the examples below is exact in binary floating point.
\<close>

record response =
  status_code :: int
  loss :: "real option"
  gradients :: real

text \<open>
  \<^verbatim>\<open>
  def score_gradients(self, response, uid):
      ...  # recompute the gradients on response.dataset_indices
      gradients = float(sum(gradients[response.gradient_test_index]))
      score = 1-(abs(gradients-response.gradients))
      return score
  \<close>
  \<open>local_gradients\<close> is the sum the validator recomputes.
\<close>

definition score_gradients :: "real \<Rightarrow> response \<Rightarrow> real" where
  "score_gradients local_gradients response =
     (let score = 1 - \<bar>local_gradients - gradients response\<bar> in score)"

text \<open>
  \<^verbatim>\<open>
  async def score_blacklist(self, uids, scores):
      peer_ids = []
      for i, uid in enumerate(uids):
          peer_id = await self.map_uid_to_peerid(uid)
          if peer_id == None:
              scores[i] = 0.0
          else:
              scores[i] = 1.0
          peer_ids.append(peer_id)
      return peer_ids, scores
  \<close>
  \<open>peer_of\<close> is the lookup of a uid in the DHT.
\<close>

fun score_blacklist ::
  "(int \<Rightarrow> peer_id option) \<Rightarrow> int list \<Rightarrow> real list \<Rightarrow> py_error + peer_id option list \<times> real list" where
  "score_blacklist peer_of [] scores = Inr ([], scores)"
| "score_blacklist peer_of (uid # uids) [] = Inl IndexError"
| "score_blacklist peer_of (uid # uids) (score # scores) =
     (case score_blacklist peer_of uids scores of
        Inl e \<Rightarrow> Inl e
      | Inr (peers, rest) \<Rightarrow>
          Inr (peer_of uid # peers, (if peer_of uid = None then 0 else 1) # rest))"

text \<open>
  \<^verbatim>\<open>score_bandwidth\<close> scores a peer 0 when it is \<^verbatim>\<open>None\<close>, when the download
  fails or raises, and \<^verbatim>\<open>1 / (end_time - start_time)\<close> otherwise. \<open>download p\<close> is
  the time a successful download from \<open>p\<close> takes; a division by zero is an exception, which
  the handler scores 0.
\<close>

fun score_bandwidth ::
  "(peer_id \<Rightarrow> real option) \<Rightarrow> peer_id option list \<Rightarrow> real list \<Rightarrow> py_error + real list" where
  "score_bandwidth download [] scores = Inr scores"
| "score_bandwidth download (peer # peers) [] = Inl IndexError"
| "score_bandwidth download (peer # peers) (score # scores) =
     (case score_bandwidth download peers scores of
        Inl e \<Rightarrow> Inl e
      | Inr rest \<Rightarrow>
          Inr ((case peer of
                  None \<Rightarrow> 0
                | Some p \<Rightarrow>
                    (case download p of
                       None \<Rightarrow> 0
                     | Some elapsed \<Rightarrow> if elapsed = 0 then 0 else 1 / elapsed)) # rest))"

text \<open>
  \<^verbatim>\<open>get_rewards(self, uids, responses, all_reduce)\<close>. \<^verbatim>\<open>forward\<close> passes the result
  of one gathered query, a list of one list of responses; \<open>responses0\<close> is that inner list.
  \<^verbatim>\<open>
  if (responses == [[]]) or ([response[0] for response in responses
          if response[0].dendrite.status_code == 200 and response[0].loss != []] == []):
      if all_reduce:
          uids = await get_random_uids(self, dendrite=self.dendrite, k=self.config.neuron.sample_size)
          scores = torch.FloatTensor([0 for _ in uids]).to(self.device)
          peer_ids, scores = await score_blacklist(self, uids, scores)
          scores = await score_bandwidth(self, peer_ids, scores)
      else:
          scores = torch.FloatTensor([0 for _ in uids]).to(self.device)
  else:
      scores = torch.FloatTensor([1 if response.dendrite.status_code == 200 and response.loss != []
                                  else 0 for _, response in zip(uids, responses[0])])
      if ((self.step % 10)==0):
          peer_ids, scores = await score_blacklist(self, uids, scores)
      test_uids_index = [uid_index for uid_index, _ in enumerate(uids)
                         if responses[0][uid_index].dendrite.status_code == 200]
      test_uids_sample_index = random.sample(test_uids_index, k = min(4, len(test_uids_index)))
      scores = torch.FloatTensor([scores[uid_index] * score_gradients(self, responses[0][uid_index], uid_index)
                                  if uid_index in test_uids_sample_index else scores[uid_index]
                                  for uid_index,_ in enumerate(uids)])
  return scores
  \<close>
  The environment holds the step counter, the uids \<^verbatim>\<open>get_random_uids\<close> answers, the
  DHT lookup, the download times, the draw of \<^verbatim>\<open>random.sample\<close> from a population
  and the gradient sums the validator recomputes.
\<close>

definition responded :: "response \<Rightarrow> bool" where
  "responded r = (status_code r = 200 \<and> loss r \<noteq> None)"

record scoring_env =
  step :: int
  sample_size_uids :: "int list"
  peer_of :: "int \<Rightarrow> peer_id option"
  download :: "peer_id \<Rightarrow> real option"
  random_sample :: "nat list \<Rightarrow> nat \<Rightarrow> nat list"
  local_gradients :: "nat \<Rightarrow> real"

definition get_rewards ::
  "scoring_env \<Rightarrow> int list \<Rightarrow> response list \<Rightarrow> bool \<Rightarrow> py_error + real list" where
  "get_rewards env uids responses0 all_reduce =
     (if responses0 = [] \<or> \<not> responded (hd responses0) then
        (if all_reduce then
           (let uids1 = sample_size_uids env;
                scores = map (\<lambda>_. 0) uids1
            in case score_blacklist (peer_of env) uids1 scores of
                 Inl e \<Rightarrow> Inl e
               | Inr (peers, scores1) \<Rightarrow> score_bandwidth (download env) peers scores1)
         else Inr (map (\<lambda>_. 0) uids))
      else
        (let scores = map (\<lambda>(_, r). if responded r then 1 else 0) (zip uids responses0);
             blacklisted =
               (if step env mod 10 = 0
                then map_sum id snd (score_blacklist (peer_of env) uids scores)
                else Inr scores)
         in case blacklisted of
              Inl e \<Rightarrow> Inl e
            | Inr scores1 \<Rightarrow>
                if length responses0 < length uids then Inl IndexError
                else
                  (let test_uids_index =
                         filter (\<lambda>uid_index. status_code (responses0 ! uid_index) = 200)
                           [0..<length uids];
                       test_uids_sample_index =
                         random_sample env test_uids_index (min 4 (length test_uids_index))
                   in Inr (map (\<lambda>uid_index.
                                 if uid_index \<in> set test_uids_sample_index
                                 then scores1 ! uid_index *
                                      score_gradients (local_gradients env uid_index)
                                        (responses0 ! uid_index)
                                 else scores1 ! uid_index)
                               [0..<length uids]))))"

text \<open>
  \<^verbatim>\<open>forward\<close> then normalises the rewards before \<^verbatim>\<open>self.update_scores\<close> stores them:
  \<^verbatim>\<open>
  if rewards.sum() != 0:
      rewards = rewards / rewards.sum()
  \<close>
\<close>

definition normalise_rewards :: "real list \<Rightarrow> real list" where
  "normalise_rewards rewards =
     (if sum_list rewards \<noteq> 0 then map (\<lambda>r. r / sum_list rewards) rewards else rewards)"

text \<open>
  Two responses of a train step: one whose reported gradient sum is the validator's own,
  one that reports 3 where the validator computes 0.
\<close>

definition honest_response :: response where
  "honest_response = \<lparr>status_code = 200, loss = Some 2, gradients = 1 / 2\<rparr>"

definition inflated_response :: response where
  "inflated_response = \<lparr>status_code = 200, loss = Some 2, gradients = 3\<rparr>"

definition train_env :: scoring_env where
  "train_env =
     \<lparr>step = 1, sample_size_uids = [], peer_of = (\<lambda>uid. Some 1), download = (\<lambda>p. None),
      random_sample = (\<lambda>population k. take k (rev population)),
      local_gradients = (\<lambda>i. if i = 0 then 0 else 1 / 2)\<rparr>"

subsection \<open>Forming the group\<close>

text \<open>
  \<^verbatim>\<open>template/validator/forward.py\<close> imports the \<^verbatim>\<open>score_blacklist\<close> above
  (\<^verbatim>\<open>from template.validator.reward import get_rewards, score_blacklist\<close>). Its
  signature is \<^verbatim>\<open>score_blacklist(self, uids, scores)\<close>: three positional parameters,
  none with a default. A call binds its arguments to them and raises \<^verbatim>\<open>TypeError\<close>
  when it cannot; the calls of the sources pass the validator, the uids and the scores
  (\<^verbatim>\<open>reward.py\<close>), or the validator and the uids only (\<^verbatim>\<open>forward.py\<close>).
\<close>

datatype argument = Self_arg | Uids_arg "int list" | Scores_arg "real list"

fun score_blacklist_call ::
  "(int \<Rightarrow> peer_id option) \<Rightarrow> argument list \<Rightarrow> py_error + peer_id option list \<times> real list" where
  "score_blacklist_call lookup [Self_arg, Uids_arg uids, Scores_arg scores] =
     score_blacklist lookup uids scores"
| "score_blacklist_call lookup arguments = Inl TypeError"

text \<open>
  \<^verbatim>\<open>
  async def perform_all_reduce(self, start_time):
      group_peerids = None
      blacklist_scores = None
      ...
      while (
          (group_peerids is None)
          or (blacklist_scores is None)
          or any(scores_ids_tuple[1] is None
                 for index, scores_ids_tuple in enumerate(zip(blacklist_scores, group_peerids.values()))
                 if (index != self.uid) and (scores_ids_tuple[0] != 0))
      ):
          group_peerids = await map_uid_to_peerid(self, self.miner_uids.tolist())
          self.uids_to_peerids = group_peerids
          blacklist_scores = await score_blacklist(self, group_peerids.keys())
      ...
      ordered_peer_ids = [self.dht.peer_id] + list(group_peerids.values())
      group = template.protocol.Group(...)
      gradient_averaging_step = self.grad_averager.step(custom_group_info=custom_group, wait=False, ...)
      ...
      return gradient_averaging_step, queries
  \<close>
  The guard holds on entry, \<^verbatim>\<open>group_peerids\<close> being \<^verbatim>\<open>None\<close>, so the body runs at
  least once. \<^verbatim>\<open>map_uid_to_peerid\<close> is a function of \<^verbatim>\<open>template.utils.uids\<close>, a
  module that is not among the sources: \<open>mapped\<close> is what its first call does, raise or
  return the dictionary from uid to peer id (an association list, in insertion order);
  \<^verbatim>\<open>AttributeError\<close> stands for a value without \<^verbatim>\<open>keys\<close>. Everything that follows
  a call of \<^verbatim>\<open>score_blacklist\<close> that returns (the guard again, further passes, the
  filter, the group, the averaging step and the queries) is the argument \<open>rest\<close>, a
  function of the two values the pass has bound.
\<close>

definition perform_all_reduce ::
  "(py_error + (int \<times> peer_id option) list) \<Rightarrow> (int \<Rightarrow> peer_id option) \<Rightarrow>
   ((int \<times> peer_id option) list \<Rightarrow> peer_id option list \<times> real list \<Rightarrow> py_error + 'h) \<Rightarrow>
   py_error + 'h" where
  "perform_all_reduce mapped lookup rest =
     (case mapped of
        Inl e \<Rightarrow> Inl e
      | Inr group_peerids \<Rightarrow>
          (case score_blacklist_call lookup [Self_arg, Uids_arg (map fst group_peerids)] of
             Inl e \<Rightarrow> Inl e
           | Inr blacklist_scores \<Rightarrow> rest group_peerids blacklist_scores))"




definition two_miners :: "(int \<times> peer_id option) list" where
  "two_miners = [(1, Some 20), (2, Some 10)]"

definition dht_lookup :: "int \<Rightarrow> peer_id option" where
  "dht_lookup uid = (if uid = 1 then Some 20 else if uid = 2 then Some 10 else None)"

definition count_candidates ::
  "(int \<times> peer_id option) list \<Rightarrow> peer_id option list \<times> real list \<Rightarrow> py_error + nat" where
  "count_candidates group_peerids blacklist_scores = Inr (length group_peerids)"

section \<open>Properties\<close>

subsection \<open>The loading guard\<close>

text \<open>
  C10. A call of \<^verbatim>\<open>set_loading_state\<close> always stores the flag it is given. It
  leaves \<^verbatim>\<open>last_loaded_epoch\<close> as it was when the flag is true or the epoch is
  omitted (\<^verbatim>\<open>None\<close>), and stores the epoch when the flag is false and an epoch
  is supplied: the field changes only in that last case.
\<close>

theorem set_loading_state_frame:
  "is_loading (set_loading_state m loading epoch) = loading \<and>
   (loading \<or> epoch = None \<longrightarrow>
      last_loaded_epoch (set_loading_state m loading epoch) = last_loaded_epoch m) \<and>
   (\<not> loading \<and> epoch = Some e \<longrightarrow>
      last_loaded_epoch (set_loading_state m loading epoch) = Some e) \<and>
   (last_loaded_epoch (set_loading_state m loading epoch) \<noteq> last_loaded_epoch m \<longrightarrow>
      \<not> loading \<and> epoch \<noteq> None)"
  by (auto simp: set_loading_state_def Let_def)

theorem set_loading_state_frame_witness:
  "is_loading (set_loading_state init_manager True (Some 4)) = True \<and>
   last_loaded_epoch (set_loading_state init_manager True (Some 4)) = None \<and>
   last_loaded_epoch (set_loading_state init_manager False None) = None \<and>
   last_loaded_epoch (set_loading_state init_manager False (Some 4)) = Some 4 \<and>
   last_loaded_epoch (set_loading_state init_manager False (Some 4)) \<noteq>
     last_loaded_epoch init_manager"
  using set_loading_state_frame [of init_manager True "Some 4" 4]
    set_loading_state_frame [of init_manager False None 4]
    set_loading_state_frame [of init_manager False "Some 4" 4]
  by (simp add: init_manager_def)

subsection \<open>The recovery loader\<close>

lemma load_model_ok:
  "load_model_optimizer_gradient_averager fetch e s = (None, s1) \<Longrightarrow>
   model s1 = Some (revision_of_epoch e)"
  by (auto simp: load_model_optimizer_gradient_averager_def Let_def split: if_splits)

lemma load_model_frame:
  "load_model_optimizer_gradient_averager fetch e s = (r, s1) \<Longrightarrow>
   global_epoch s1 = global_epoch s"
  by (auto simp: load_model_optimizer_gradient_averager_def Let_def split: if_splits)

lemma load_loop_ok:
  "load_loop hub e attempt s = (None, s1) \<Longrightarrow> attempt < MAX_ATTEMPTS \<Longrightarrow>
   model s1 = Some (revision_of_epoch e) \<and> global_epoch s1 = global_epoch s"
proof (induction hub e attempt s rule: load_loop.induct)
  case (1 hub epoch attempt s)
  obtain r s2 where l: "load_model_optimizer_gradient_averager (hub attempt) epoch s = (r, s2)"
    by (cases "load_model_optimizer_gradient_averager (hub attempt) epoch s")
  show ?case
  proof (cases r)
    case None
    with 1 l load_model_frame [OF l] show ?thesis
      using load_model_ok [of "hub attempt" epoch s s1]
      by (simp add: load_loop.simps [of hub epoch attempt s] split: if_splits)
  next
    case (Some err)
    with 1 l load_model_frame [OF l] show ?thesis
      by (auto simp: load_loop.simps [of hub epoch attempt s] Let_def split: if_splits)
  qed
qed

lemma load_state_from_peer_True:
  assumes "load_state_from_peer queried hub epoch s = (True, s')"
  shows "\<exists>g e s2.
           global_epoch (if epoch = None then s\<lparr>global_epoch := queried\<rparr> else s) = Some g \<and>
           (if epoch = None then queried else epoch) = Some e \<and>
           load_loop hub e 0 (if epoch = None then s\<lparr>global_epoch := queried\<rparr> else s) =
             (None, s2) \<and>
           s' = s2\<lparr>local_epoch := g, local_samples_accumulated := 0\<rparr>"
  using assms unfolding load_state_from_peer_def Let_def
  by (simp split: if_splits option.splits prod.splits)

text \<open>
  C5, as stated, fails: called with an explicit epoch, the loader downloads the tag of
  that epoch, not of the global epoch. With the global epoch at 5 and the argument 3 the
  call succeeds, the model is revision 3, and local progress is set to epoch 5. And with
  the global epoch at 0, passed as the argument, the call succeeds with the model of the
  default branch, not of tag 0.
\<close>

theorem load_state_from_peer_explicit_epoch_counterexample:
  "fst (load_state_from_peer None hub_up (Some 3) behind_neuron) = True \<and>
   model (snd (load_state_from_peer None hub_up (Some 3) behind_neuron)) = Some (Tag 3) \<and>
   global_epoch (snd (load_state_from_peer None hub_up (Some 3) behind_neuron)) = Some 5 \<and>
   local_epoch (snd (load_state_from_peer None hub_up (Some 3) behind_neuron)) = 5 \<and>
   load_state_from_peer None hub_up (Some 0) early_neuron =
     (True, \<lparr>local_epoch = 0, local_samples_accumulated = 0, global_epoch = Some 0,
             model = Some Default_branch\<rparr>)"
  by code_simp

text \<open>
  C5, amended. Whenever \<^verbatim>\<open>load_state_from_peer\<close> returns \<^verbatim>\<open>True\<close>, local
  progress mirrors the global epoch with zero accumulated samples, and the model is the
  revision of the epoch in use: the caller's argument, or the freshly queried global epoch
  when the argument is omitted. So the loaded tag is the tag of the global epoch whenever
  the argument is omitted or equals the global epoch, and that epoch is not 0.
\<close>

theorem load_state_from_peer_success:
  assumes "load_state_from_peer queried hub epoch s = (True, s')"
  shows "global_epoch s' = Some (local_epoch s') \<and>
         local_samples_accumulated s' = 0 \<and>
         (\<forall>e. epoch = Some e \<longrightarrow>
              model s' = Some (revision_of_epoch e) \<and> global_epoch s' = global_epoch s) \<and>
         (epoch = None \<longrightarrow>
              global_epoch s' = queried \<and>
              model s' = Some (revision_of_epoch (local_epoch s'))) \<and>
         ((epoch = None \<or> epoch = global_epoch s) \<and> local_epoch s' \<noteq> 0 \<longrightarrow>
              model s' = Some (Tag (local_epoch s')))"
proof -
  let ?s1 = "if epoch = None then s\<lparr>global_epoch := queried\<rparr> else s"
  from load_state_from_peer_True [OF assms] obtain g e s2 where
    g: "global_epoch ?s1 = Some g" and e: "(if epoch = None then queried else epoch) = Some e" and
    l: "load_loop hub e 0 ?s1 = (None, s2)" and
    s': "s' = s2\<lparr>local_epoch := g, local_samples_accumulated := 0\<rparr>"
    by blast
  have "0 < MAX_ATTEMPTS" by (simp add: MAX_ATTEMPTS_def)
  from load_loop_ok [OF l this] have m: "model s2 = Some (revision_of_epoch e)"
    and ge: "global_epoch s2 = global_epoch ?s1" by simp_all
  show ?thesis
  proof (cases epoch)
    case None
    with g e m ge s' show ?thesis by (simp add: revision_of_epoch_def)
  next
    case (Some x)
    with g e m ge s' show ?thesis by (auto simp: revision_of_epoch_def)
  qed
qed

theorem load_state_from_peer_success_witness:
  "load_state_from_peer (Some 5) hub_up None behind_neuron =
     (True, \<lparr>local_epoch = 5, local_samples_accumulated = 0, global_epoch = Some 5,
             model = Some (Tag 5)\<rparr>) \<and>
   load_state_from_peer None hub_up (Some 5) behind_neuron =
     (True, \<lparr>local_epoch = 5, local_samples_accumulated = 0, global_epoch = Some 5,
             model = Some (Tag 5)\<rparr>)"
proof -
  let ?s' = "\<lparr>local_epoch = 5, local_samples_accumulated = 0, global_epoch = Some 5,
              model = Some (Tag 5)\<rparr>"
  have a: "load_state_from_peer (Some 5) hub_up None behind_neuron = (True, ?s')"
    by code_simp
  have b: "load_state_from_peer None hub_up (Some 5) behind_neuron = (True, ?s')"
    by code_simp
  from load_state_from_peer_success [OF a] load_state_from_peer_success [OF b] a b
  show ?thesis by simp
qed

subsection \<open>The routine progress check\<close>

text \<open>
  C6. In \<^verbatim>\<open>distributed_training/validator/forward.py\<close> the routine check compares
  with \<^verbatim>\<open>!=\<close>: a validator whose local epoch 6 is ahead of the global epoch 5 calls
  the loader with epoch 5. The check of \<^verbatim>\<open>template/validator/forward.py\<close>, which
  compares with \<^verbatim>\<open><\<close>, does not call it in the same state.
\<close>

theorem forward_dt_progress_check_ahead:
  "forward_dt_progress_check ahead_neuron = Some (Some 5) \<and>
   forward_template_progress_check ahead_neuron = None"
  by (simp add: forward_dt_progress_check_def forward_template_progress_check_def
      ahead_neuron_def)

subsection \<open>The round-due decision\<close>

text \<open>
  C7. In \<^verbatim>\<open>distributed_training/validator/forward.py\<close> the comparison of the
  elapsed blocks with the configured interval is overwritten before it is read: the
  decision is \<^verbatim>\<open>True\<close> on every tick, also one block after the last round with an
  interval of ten blocks. In \<^verbatim>\<open>template/validator/forward.py\<close> the decision is
  the comparison of the local samples with the literal 25.
\<close>

theorem forward_dt_should_allreduce_always:
  "forward_dt_should_allreduce block last_allreduce_block blocks_per_allreduce = True \<and>
   forward_dt_should_allreduce 100 99 10 = True \<and>
   forward_template_all_reduce s = (25 \<le> local_samples_accumulated s)"
  by (simp add: forward_dt_should_allreduce_def forward_template_all_reduce_def)

subsection \<open>Finding enough miners\<close>

lemma get_active_miners_enough:
  "get_active_miners polls m k uids = Some (Inr r) \<Longrightarrow> m - 1 \<le> int (length r)"
proof (induction polls m k uids "Inr r :: py_error + int list"
    rule: get_active_miners.raw_induct [rotated 1, consumes 1])
  case (1 get polls m k uids)
  then show ?case
    by (auto split: if_splits option.splits)
qed

lemma get_active_miners_stuck:
  "get_active_miners polls m k uids = Some y \<Longrightarrow> int (length uids) < m - 1 \<Longrightarrow>
   \<forall>j. \<exists>u. polls j = Some u \<and> int (length u) < m - 1 \<Longrightarrow> False"
proof (induction polls m k uids y rule: get_active_miners.raw_induct [rotated 1, consumes 1])
  case (1 get polls m k uids y)
  from "1.prems" obtain u where u: "polls k = Some u" "int (length u) < m - 1"
    by blast
  with "1.hyps" "1.prems"(1) have "get polls m (Suc k) u = Some y"
    by simp
  from "1.IH" [OF this u(2) "1.prems"(2)] show ?case .
qed

lemma get_active_miners_found:
  "int (length uids) < m - 1 \<Longrightarrow>
   \<forall>j<n. \<exists>u. polls (k + j) = Some u \<and> int (length u) < m - 1 \<Longrightarrow>
   polls (k + n) = Some u' \<Longrightarrow> m - 1 \<le> int (length u') \<Longrightarrow>
   get_active_miners polls m k uids = Some (Inr u')"
proof (induction n arbitrary: k uids)
  case 0
  then show ?case
    by (simp add: get_active_miners.simps [of polls m k]
        get_active_miners.simps [of polls m "Suc k"])
next
  case (Suc n)
  from Suc.prems(2) obtain u where u: "polls k = Some u" "int (length u) < m - 1"
    by force
  have "\<forall>j<n. \<exists>u. polls (Suc k + j) = Some u \<and> int (length u) < m - 1"
    using Suc.prems(2) by (metis Suc_less_eq add_Suc_shift)
  with Suc.IH [of u "Suc k"] u Suc.prems
  have "get_active_miners polls m (Suc k) u = Some (Inr u')"
    by simp
  with u Suc.prems(1) show ?case
    by (simp add: get_active_miners.simps [of polls m k uids])
qed

text \<open>
  C8, as stated, fails: with a pool that stays at two miners and a minimum group size of
  five the loop of \<^verbatim>\<open>forward\<close> has no result at all. It neither stops after a
  bounded number of polls nor reports insufficient peers.
\<close>

theorem get_active_miners_small_pool_counterexample:
  "get_active_miners small_pool 5 0 [] = None"
proof (cases "get_active_miners small_pool 5 0 []")
  case None
  then show ?thesis .
next
  case (Some y)
  from get_active_miners_stuck [OF Some] show ?thesis
    by (simp add: small_pool_def)
qed

text \<open>
  C8, amended. The master validator polls for miners until one poll answers at least
  \<^verbatim>\<open>min_group_size - 1\<close> of them. A list it returns is never shorter than that; it
  returns the first poll that is long enough, whatever the number of short polls before
  it; and while every poll stays short it never returns: the retries are not bounded and
  there is no insufficient-peers result.
\<close>

theorem get_active_miners_unbounded:
  "(get_active_miners polls m k uids = Some (Inr r) \<longrightarrow> m - 1 \<le> int (length r)) \<and>
   (int (length uids) < m - 1 \<and>
    (\<forall>j<n. \<exists>u. polls (k + j) = Some u \<and> int (length u) < m - 1) \<and>
    polls (k + n) = Some u' \<and> m - 1 \<le> int (length u') \<longrightarrow>
      get_active_miners polls m k uids = Some (Inr u')) \<and>
   (int (length uids) < m - 1 \<and>
    (\<forall>j. \<exists>u. polls j = Some u \<and> int (length u) < m - 1) \<longrightarrow>
      get_active_miners polls m k uids = None)"
proof (intro conjI impI)
  assume "get_active_miners polls m k uids = Some (Inr r)"
  then show "m - 1 \<le> int (length r)"
    by (rule get_active_miners_enough)
next
  assume "int (length uids) < m - 1 \<and>
    (\<forall>j<n. \<exists>u. polls (k + j) = Some u \<and> int (length u) < m - 1) \<and>
    polls (k + n) = Some u' \<and> m - 1 \<le> int (length u')"
  then show "get_active_miners polls m k uids = Some (Inr u')"
    using get_active_miners_found [of uids m n polls k u'] by blast
next
  assume a: "int (length uids) < m - 1 \<and>
    (\<forall>j. \<exists>u. polls j = Some u \<and> int (length u) < m - 1)"
  show "get_active_miners polls m k uids = None"
  proof (cases "get_active_miners polls m k uids")
    case None
    then show ?thesis .
  next
    case (Some y)
    from get_active_miners_stuck [OF Some] a show ?thesis
      by blast
  qed
qed

theorem get_active_miners_unbounded_witness:
  "get_active_miners growing_pool 5 0 [] = Some (Inr [1, 2, 3, 4]) \<and>
   (5 :: int) - 1 \<le> int (length [1, 2, 3, 4 :: int]) \<and>
   get_active_miners small_pool 5 1 [1, 2] = None"
proof -
  have g: "int (length ([] :: int list)) < 5 - 1 \<and>
      (\<forall>j<2. \<exists>u. growing_pool (0 + j) = Some u \<and> int (length u) < 5 - 1) \<and>
      growing_pool (0 + 2) = Some [1, 2, 3, 4] \<and> (5 :: int) - 1 \<le> int (length [1, 2, 3, 4 :: int])"
    by (simp add: growing_pool_def)
  have s: "int (length [1, 2 :: int]) < 5 - 1 \<and>
      (\<forall>j. \<exists>u. small_pool j = Some u \<and> int (length u) < 5 - 1)"
    by (simp add: small_pool_def)
  from get_active_miners_unbounded [of growing_pool 5 0 "[]" "[1, 2, 3, 4]" 2 "[1, 2, 3, 4]"] g
  have 1: "get_active_miners growing_pool 5 0 [] = Some (Inr [1, 2, 3, 4])"
    and 2: "(5 :: int) - 1 \<le> int (length [1, 2, 3, 4 :: int])"
    by blast+
  from get_active_miners_unbounded [of small_pool 5 1 "[1, 2]" "[]" 0 "[]"] s
  have 3: "get_active_miners small_pool 5 1 [1, 2] = None"
    by blast
  from 1 2 3 show ?thesis by blast
qed

subsection \<open>Uploading the new state\<close>

lemma attempts_trace_step:
  "a < n \<Longrightarrow> attempts_trace env a n = calls_of (env a) @ [Sleep] @ attempts_trace env (Suc a) n"
  by (simp add: attempts_trace_def upt_conv_Cons)

lemma upload_loop_shape:
  "upload_loop env limit a calls0 = (res, calls) \<Longrightarrow> int a < limit \<Longrightarrow>
   \<exists>n. a < n \<and> int n \<le> limit \<and>
       (\<forall>j. a \<le> j \<and> j < n - 1 \<longrightarrow> env j \<noteq> Completes) \<and>
       calls = calls0 @ attempts_trace env a (n - 1) @ calls_of (env (n - 1)) \<and>
       res = (if env (n - 1) = Completes then Returned True else Raised (env (n - 1))) \<and>
       (env (n - 1) \<noteq> Completes \<longrightarrow> int n = limit)"
proof (induction env limit a calls0 rule: upload_loop.induct)
  case (1 env limit a calls0)
  show ?case
  proof (cases "env a = Completes")
    case True
    with "1.prems" have "res = Returned True" "calls = calls0 @ calls_of (env a)"
      by (simp_all add: upload_loop.simps [of env limit a calls0] Let_def)
    with True "1.prems"(2) show ?thesis
      by (intro exI [of _ "Suc a"]) (auto simp: attempts_trace_def)
  next
    case False
    show ?thesis
    proof (cases "int (a + 1) < limit")
      case last: False
      with False "1.prems" have "res = Raised (env a)" "calls = calls0 @ calls_of (env a)"
        by (simp_all add: upload_loop.simps [of env limit a calls0] Let_def)
      with False last "1.prems"(2) show ?thesis
        by (intro exI [of _ "Suc a"]) (auto simp: attempts_trace_def)
    next
      case more: True
      with False "1.prems" have
        r: "upload_loop env limit (a + 1) ((calls0 @ calls_of (env a)) @ [Sleep]) = (res, calls)"
        by (simp add: upload_loop.simps [of env limit a calls0] Let_def)
      from "1.IH" [OF "1.prems"(2) refl False refl more r more]
      obtain n where n: "a + 1 < n" "int n \<le> limit"
        "\<forall>j. a + 1 \<le> j \<and> j < n - 1 \<longrightarrow> env j \<noteq> Completes"
        "calls = ((calls0 @ calls_of (env a)) @ [Sleep]) @ attempts_trace env (a + 1) (n - 1) @
           calls_of (env (n - 1))"
        "res = (if env (n - 1) = Completes then Returned True else Raised (env (n - 1)))"
        "env (n - 1) \<noteq> Completes \<longrightarrow> int n = limit"
        by auto
      have "\<forall>j. a \<le> j \<and> j < n - 1 \<longrightarrow> env j \<noteq> Completes"
        using n(3) False by (metis Suc_eq_plus1 le_antisym not_less_eq_eq)
      moreover have "calls = calls0 @ attempts_trace env a (n - 1) @ calls_of (env (n - 1))"
        using n(1,4) attempts_trace_step [of a "n - 1" env] by simp
      ultimately show ?thesis
        using n(1,2,5,6) by (intro exI [of _ n]) simp
    qed
  qed
qed

lemma count_calls_of:
  "count_list (calls_of out) Save_state = 1 \<and> count_list (calls_of out) Sleep = 0"
  by (cases out) simp_all

lemma count_list_app: "count_list (xs @ ys) x = count_list xs x + count_list ys x"
  by (induction xs) simp_all

lemma count_attempts_trace:
  "count_list (attempts_trace env 0 m) Save_state = m \<and>
   count_list (attempts_trace env 0 m) Sleep = m"
  by (induction m) (simp_all add: attempts_trace_def count_list_app count_calls_of)

text \<open>
  C3. For every behaviour of the hub and every retry limit, \<^verbatim>\<open>save_and_upload_state\<close>
  makes \<open>n\<close> attempts, at most \<^verbatim>\<open>model_upload_retry_limit\<close> of them. Every attempt
  runs the whole body again, from saving the state on, whatever call of the attempt before
  it raised (also when its upload had gone through and only the tag failed), and exactly
  one sleep separates two attempts. All attempts but the last failed. If the last one
  completes the result is \<^verbatim>\<open>True\<close>; if it fails, the limit is exhausted and its
  exception is raised to the caller. \<^verbatim>\<open>False\<close> is returned only when the limit
  allows no attempt at all.
\<close>

theorem save_and_upload_state_retries:
  assumes "save_and_upload_state env retry_limit = (res, calls)"
  shows "\<exists>n. int n \<le> max 0 retry_limit \<and>
           (\<forall>j. j < n - 1 \<longrightarrow> env j \<noteq> Completes) \<and>
           calls = attempts_trace env 0 (n - 1) @ (if n = 0 then [] else calls_of (env (n - 1))) \<and>
           count_list calls Save_state = n \<and>
           count_list calls Sleep = n - 1 \<and>
           res = (if n = 0 then Returned False
                  else if env (n - 1) = Completes then Returned True
                  else Raised (env (n - 1))) \<and>
           (n = 0 \<longrightarrow> retry_limit \<le> 0) \<and>
           (0 < n \<and> env (n - 1) \<noteq> Completes \<longrightarrow> int n = retry_limit)"
proof (cases "0 < retry_limit")
  case False
  with assms have "res = Returned False" "calls = []"
    by (simp_all add: save_and_upload_state_def upload_loop.simps [of env retry_limit 0])
  with False show ?thesis
    by (intro exI [of _ 0]) (simp add: attempts_trace_def)
next
  case True
  from assms have "upload_loop env retry_limit 0 [] = (res, calls)"
    by (simp add: save_and_upload_state_def)
  from upload_loop_shape [OF this] True
  obtain n where n: "0 < n" "int n \<le> retry_limit"
    "\<forall>j. 0 \<le> j \<and> j < n - 1 \<longrightarrow> env j \<noteq> Completes"
    "calls = [] @ attempts_trace env 0 (n - 1) @ calls_of (env (n - 1))"
    "res = (if env (n - 1) = Completes then Returned True else Raised (env (n - 1)))"
    "env (n - 1) \<noteq> Completes \<longrightarrow> int n = retry_limit"
    by auto
  have "count_list calls Save_state = n" "count_list calls Sleep = n - 1"
    using n(1,4) by (simp_all add: count_list_app count_attempts_trace count_calls_of)
  with n show ?thesis
    by (intro exI [of _ n]) simp
qed

theorem save_and_upload_state_retries_witness:
  "save_and_upload_state flaky_hub 3 =
     (Returned True,
      [Save_state, Upload_folder, Create_tag, Sleep, Save_state, Upload_folder, Sleep,
       Save_state, Upload_folder, Create_tag]) \<and>
   save_and_upload_state down_hub 2 =
     (Raised Raises_in_create_tag,
      [Save_state, Upload_folder, Create_tag, Sleep, Save_state, Upload_folder, Create_tag])"
proof -
  have a: "save_and_upload_state flaky_hub 3 =
     (Returned True,
      [Save_state, Upload_folder, Create_tag, Sleep, Save_state, Upload_folder, Sleep,
       Save_state, Upload_folder, Create_tag])"
    by code_simp
  have b: "save_and_upload_state down_hub 2 =
     (Raised Raises_in_create_tag,
      [Save_state, Upload_folder, Create_tag, Sleep, Save_state, Upload_folder, Create_tag])"
    by code_simp
  from save_and_upload_state_retries [OF a] save_and_upload_state_retries [OF b] a b
  show ?thesis by blast
qed

subsection \<open>The publisher and the tags of the hub\<close>






subsection \<open>Forming the group\<close>

lemma score_blacklist_call_two_arguments:
  "score_blacklist_call lookup [Self_arg, Uids_arg uids] = Inl TypeError"
  by simp

lemma perform_all_reduce_TypeError:
  "perform_all_reduce (Inr group_peerids) lookup rest = Inl TypeError"
  by (simp add: perform_all_reduce_def)

lemma perform_all_reduce_Inl:
  "\<exists>e. perform_all_reduce mapped lookup rest = Inl e"
  by (cases mapped) (simp_all add: perform_all_reduce_def)

text \<open>
  C1. \<^verbatim>\<open>perform_all_reduce\<close> forms no group, for any candidates: the first pass of
  its lookup loop calls \<^verbatim>\<open>score_blacklist\<close> with two arguments, the function takes
  three, and the \<^verbatim>\<open>TypeError\<close> of the call leaves \<^verbatim>\<open>perform_all_reduce\<close>
  whatever the rest of the function does; when the lookup itself raises, that leaves it.
  So no peer order is computed there. The script \<^verbatim>\<open>grad_averager_test.py\<close> does
  order its peers, the local one and the remote ones, by their \<^verbatim>\<open>xor_id\<close>.
\<close>

theorem perform_all_reduce_raises:
  "perform_all_reduce (Inr group_peerids) lookup rest = Inl TypeError \<and>
   (\<exists>e. perform_all_reduce mapped lookup rest = Inl e) \<and>
   perform_all_reduce (Inr two_miners) dht_lookup count_candidates = Inl TypeError \<and>
   sorted (map xor_id (script_ordered_peer_ids xor_id self_peer remote_peer)) \<and>
   mset (script_ordered_peer_ids xor_id self_peer remote_peer) = mset (self_peer # remote_peer)"
proof -
  have "sorted (map xor_id (script_ordered_peer_ids xor_id self_peer remote_peer))"
    unfolding script_ordered_peer_ids_def by (rule sorted_sort_key)
  moreover have "mset (script_ordered_peer_ids xor_id self_peer remote_peer) =
      mset (self_peer # remote_peer)"
    by (simp add: script_ordered_peer_ids_def)
  ultimately show ?thesis
    by (simp add: perform_all_reduce_TypeError perform_all_reduce_Inl)
qed

subsection \<open>Scores\<close>

text \<open>
  C9. A miner whose reported gradient sum is more than 1 away from the sum the validator
  recomputes gets a negative score from \<^verbatim>\<open>score_gradients\<close>: here 1 - |0 - 3| = -2.
  \<^verbatim>\<open>get_rewards\<close> returns it unclamped, and the normalisation of \<^verbatim>\<open>forward\<close>
  divides by the negative sum, so the score handed to \<^verbatim>\<open>update_scores\<close> for the miner
  that reported the right sum is -1.
\<close>

theorem get_rewards_negative_score:
  "score_gradients 0 inflated_response = - 2 \<and>
   get_rewards train_env [11, 12] [inflated_response, honest_response] False = Inr [- 2, 1] \<and>
   normalise_rewards [- 2, 1] = [2, - 1]"
  by (simp add: get_rewards_def train_env_def inflated_response_def honest_response_def
      responded_def score_gradients_def normalise_rewards_def upt_rec Let_def)

subsection \<open>The all-reduce step\<close>



end
